theory Spec2Isabelle
  imports Main "HOL-Library.Word"
begin

unbundle bit_operations_syntax

section \<open>Register map and magic bytes\<close>

text \<open>
  The constants of \<^verbatim>\<open>class Reg\<close> and the module-level magic bytes of
  \<^verbatim>\<open>pcf8523.py\<close>. Register addresses and the data handed to the bus are Python
  integers, hence \<^typ>\<open>int\<close>. Two pairs of names share an address in the source
  (\<^verbatim>\<open>CONTROL_3\<close>/\<^verbatim>\<open>SECONDS\<close> at 0x03 and \<^verbatim>\<open>CLK_OUT\<close>/\<^verbatim>\<open>TIMER\<close> at 0x0F); the
  model keeps them as they are.
\<close>

definition Reg_CONTROL_1 :: int where "Reg_CONTROL_1 = 0x00"
definition Reg_CONTROL_2 :: int where "Reg_CONTROL_2 = 0x01"
definition Reg_CONTROL_3 :: int where "Reg_CONTROL_3 = 0x03"
definition Reg_SECONDS :: int where "Reg_SECONDS = 0x03"
definition Reg_MINUTES :: int where "Reg_MINUTES = 0x04"
definition Reg_HOURS :: int where "Reg_HOURS = 0x05"
definition Reg_DAYS :: int where "Reg_DAYS = 0x06"
definition Reg_WEEKDAY :: int where "Reg_WEEKDAY = 0x07"
definition Reg_MONTH :: int where "Reg_MONTH = 0x08"
definition Reg_YEAR :: int where "Reg_YEAR = 0x09"
definition Reg_ALARM_MINUTES :: int where "Reg_ALARM_MINUTES = 0x0A"
definition Reg_ALARM_HOURS :: int where "Reg_ALARM_HOURS = 0x0B"
definition Reg_ALARM_DAY :: int where "Reg_ALARM_DAY = 0x0C"
definition Reg_ALARM_WEEKDAY :: int where "Reg_ALARM_WEEKDAY = 0x0D"
definition Reg_RESERVED :: int where "Reg_RESERVED = 0x0E"
definition Reg_CLK_OUT :: int where "Reg_CLK_OUT = 0x0F"
definition Reg_TIMER :: int where "Reg_TIMER = 0x0F"

definition ALARM_IGNORE :: int where "ALARM_IGNORE = 0x80"
definition RTC_RESET :: int where "RTC_RESET = 0x58"

definition CLOCK_CLK_OUT_FREQ_32_DOT_768KHZ :: int where "CLOCK_CLK_OUT_FREQ_32_DOT_768KHZ = 0x80"
definition CLOCK_CLK_OUT_FREQ_1_DOT_024KHZ :: int where "CLOCK_CLK_OUT_FREQ_1_DOT_024KHZ = 0x81"
definition CLOCK_CLK_OUT_FREQ_32_KHZ :: int where "CLOCK_CLK_OUT_FREQ_32_KHZ = 0x82"
definition CLOCK_CLK_OUT_FREQ_1_HZ :: int where "CLOCK_CLK_OUT_FREQ_1_HZ = 0x83"
definition CLOCK_CLK_HIGH_IMPEDANCE :: int where "CLOCK_CLK_HIGH_IMPEDANCE = 0x0"

definition IGNORE_LAST_BIT :: int where "IGNORE_LAST_BIT = 0x7F"

section \<open>The BCD codec\<close>

text \<open>
  \<^verbatim>\<open>bcd // 16 * 10 + bcd % 16\<close> and \<^verbatim>\<open>n // 10 * 16 + n % 10\<close> on Python's unbounded
  integers. Python's \<^verbatim>\<open>//\<close> and \<^verbatim>\<open>%\<close> round towards minus infinity, as \<open>div\<close> and
  \<open>mod\<close> on \<^typ>\<open>int\<close> do. Neither function has a raise statement.
\<close>

definition bcd_to_int :: "int \<Rightarrow> int" where
  "bcd_to_int bcd = bcd div 16 * 10 + bcd mod 16"

definition int_to_bcd :: "int \<Rightarrow> int" where
  "int_to_bcd n = n div 10 * 16 + n mod 10"

section \<open>Range assertions\<close>

text \<open>
  The only exceptions the module raises itself are the \<^verbatim>\<open>AssertionError\<close>s of
  \<^verbatim>\<open>assert_clock_inputs\<close>, each carrying the message
  \<^verbatim>\<open>'invalid <field> %s' % value\<close>. (Assertions are modelled as the interpreter runs
  them by default, that is, not stripped.)
\<close>

datatype error = AssertionError string

text \<open>Python's \<^verbatim>\<open>str\<close> of an integer, which is what \<^verbatim>\<open>%s\<close> formats it with.\<close>

definition digit_char :: "nat \<Rightarrow> char" where
  "digit_char d = ''0123456789'' ! d"

function str_nat :: "nat \<Rightarrow> string" where
  "str_nat n = (if n < 10 then [digit_char n] else str_nat (n div 10) @ [digit_char (n mod 10)])"
  by pat_completeness auto
termination
  by (relation "measure id") auto

definition str_int :: "int \<Rightarrow> string" where
  "str_int i = (if i < 0 then CHR ''-'' # str_nat (nat (- i)) else str_nat (nat i))"

text \<open>
  One guarded assertion of the source,
  \<^verbatim>\<open>if v is not None: assert lo <= v <= hi, 'invalid <name> %s' % v\<close>.
  An argument left at its default \<^verbatim>\<open>None\<close> is \<open>None\<close> here.
\<close>

fun assert_field :: "string \<Rightarrow> int \<Rightarrow> int \<Rightarrow> int option \<Rightarrow> error + unit" where
  "assert_field name lo hi None = Inr ()"
| "assert_field name lo hi (Some v) =
     (if lo \<le> v \<and> v \<le> hi then Inr ()
      else Inl (AssertionError (''invalid '' @ name @ '' '' @ str_int v)))"

text \<open>Statements run in sequence: the first exception raised ends the call.\<close>

fun first_error :: "(error + unit) list \<Rightarrow> error + unit" where
  "first_error [] = Inr ()"
| "first_error (Inl e # rs) = Inl e"
| "first_error (Inr u # rs) = first_error rs"

definition assert_clock_inputs ::
  "int option \<Rightarrow> int option \<Rightarrow> int option \<Rightarrow> int option \<Rightarrow> int option \<Rightarrow> int option \<Rightarrow>
   int option \<Rightarrow> error + unit" where
  "assert_clock_inputs seconds minutes hours days month year weekday =
     first_error
       [assert_field ''seconds'' 0 59 seconds,
        assert_field ''minutes'' 0 59 minutes,
        assert_field ''hours'' 0 23 hours,
        assert_field ''days'' 1 31 days,
        assert_field ''month'' 1 12 month,
        assert_field ''year'' 0 99 year,
        assert_field ''weekday'' 1 7 weekday]"

section \<open>The device behind the bus\<close>

text \<open>
  The SMBus library is an external collaborator. It is modelled by a simulated device:
  sixteen-odd eight-bit registers addressed by integers, and the trace of bus transfers
  the driver has issued. \<^verbatim>\<open>read_byte_data\<close> returns the register's byte as a Python
  integer (0..255); \<^verbatim>\<open>write_byte_data\<close> stores the low eight bits of its data
  argument. The trace keeps the data argument as the driver passed it. Bus failures are
  outside the model: every transfer succeeds. The method \<^verbatim>\<open>write\<close> is \<open>write_reg\<close>
  here, its own name being reserved.
\<close>

datatype bus_op = Read int | Write int int

record pcf8523 =
  regs :: "int \<Rightarrow> 8 word"
  trace :: "bus_op list"

definition write_reg :: "pcf8523 \<Rightarrow> int \<Rightarrow> int \<Rightarrow> pcf8523" where
  "write_reg self register data =
     self\<lparr>regs := (regs self)(register := word_of_int data),
          trace := trace self @ [Write register data]\<rparr>"

definition read :: "pcf8523 \<Rightarrow> int \<Rightarrow> int \<times> pcf8523" where
  "read self register =
     (uint (regs self register), self\<lparr>trace := trace self @ [Read register]\<rparr>)"

section \<open>Field readers\<close>

definition read_seconds :: "pcf8523 \<Rightarrow> int \<times> pcf8523" where
  "read_seconds self =
     (let (b, self) = read self Reg_SECONDS in (bcd_to_int (b AND IGNORE_LAST_BIT), self))"

definition read_minutes :: "pcf8523 \<Rightarrow> int \<times> pcf8523" where
  "read_minutes self =
     (let (b, self) = read self Reg_MINUTES in (bcd_to_int (b AND IGNORE_LAST_BIT), self))"

definition read_hours :: "pcf8523 \<Rightarrow> int \<times> pcf8523" where
  "read_hours self =
     (let (b, self) = read self Reg_HOURS in (bcd_to_int (b AND 0x3F), self))"

definition read_day :: "pcf8523 \<Rightarrow> int \<times> pcf8523" where
  "read_day self =
     (let (b, self) = read self Reg_WEEKDAY in (bcd_to_int (b AND 0x07), self))"

definition read_date :: "pcf8523 \<Rightarrow> int \<times> pcf8523" where
  "read_date self =
     (let (b, self) = read self Reg_DAYS in (bcd_to_int (b AND 0x3F), self))"

definition read_month :: "pcf8523 \<Rightarrow> int \<times> pcf8523" where
  "read_month self =
     (let (b, self) = read self Reg_MONTH in (bcd_to_int (b AND 0x1F), self))"

definition read_year :: "pcf8523 \<Rightarrow> int \<times> pcf8523" where
  "read_year self =
     (let (b, self) = read self Reg_YEAR in (bcd_to_int b, self))"

text \<open>
  \<^verbatim>\<open>read_all\<close> returns the tuple (year, month, date, day, hours, minutes, seconds);
  Python evaluates the elements of a tuple display from left to right.
\<close>

definition read_all :: "pcf8523 \<Rightarrow> (int \<times> int \<times> int \<times> int \<times> int \<times> int \<times> int) \<times> pcf8523" where
  "read_all self =
     (let (year, self) = read_year self;
          (month, self) = read_month self;
          (date, self) = read_date self;
          (day, self) = read_day self;
          (hours, self) = read_hours self;
          (minutes, self) = read_minutes self;
          (seconds, self) = read_seconds self
      in ((year, month, date, day, hours, minutes, seconds), self))"

section \<open>Writing the clock\<close>

text \<open>
  A method that can raise returns the outcome (\<open>Inl\<close> the exception) together with the
  device as the call left it, so that what was written before an exception stays visible.
\<close>

definition write_all ::
  "pcf8523 \<Rightarrow> int option \<Rightarrow> int option \<Rightarrow> int option \<Rightarrow> int option \<Rightarrow> int option \<Rightarrow>
   int option \<Rightarrow> int option \<Rightarrow> (error + unit) \<times> pcf8523" where
  "write_all self seconds minutes hours date month year iso_week_day =
     (case assert_clock_inputs seconds minutes hours date month year iso_week_day of
        Inl e \<Rightarrow> (Inl e, self)
      | Inr u \<Rightarrow>
          (let self = (case seconds of None \<Rightarrow> self
                       | Some v \<Rightarrow> write_reg self Reg_SECONDS (int_to_bcd v));
               self = (case minutes of None \<Rightarrow> self
                       | Some v \<Rightarrow> write_reg self Reg_MINUTES (int_to_bcd v));
               self = (case hours of None \<Rightarrow> self
                       | Some v \<Rightarrow> write_reg self Reg_HOURS (int_to_bcd v));
               self = (case date of None \<Rightarrow> self
                       | Some v \<Rightarrow> write_reg self Reg_DAYS (int_to_bcd v));
               self = (case month of None \<Rightarrow> self
                       | Some v \<Rightarrow> write_reg self Reg_MONTH (int_to_bcd v));
               self = (case year of None \<Rightarrow> self
                       | Some v \<Rightarrow> write_reg self Reg_YEAR (int_to_bcd v));
               self = (case iso_week_day of None \<Rightarrow> self
                       | Some v \<Rightarrow> write_reg self Reg_WEEKDAY (int_to_bcd v))
           in (Inr (), self)))"

section \<open>Control bits, alarm and clock output\<close>

definition enable_alarm_interrupt :: "pcf8523 \<Rightarrow> pcf8523" where
  "enable_alarm_interrupt self =
     (let (alarm_state, self) = read self Reg_CONTROL_1
      in write_reg self Reg_CONTROL_1 (alarm_state OR 0x02))"

text \<open>
  A parameter with a default that is not \<^verbatim>\<open>None\<close> tells an omitted argument from
  a supplied one: \<^verbatim>\<open>set_alarm(self, min=1, hour=None, day=None, weekday=None)\<close> and
  \<^verbatim>\<open>set_clk_out_frequency(self, frequency=CLOCK_CLK_OUT_FREQ_1_HZ)\<close>.
\<close>

datatype 'a arg = Omitted | Given 'a

fun arg_or :: "'a arg \<Rightarrow> 'a \<Rightarrow> 'a" where
  "arg_or Omitted d = d"
| "arg_or (Given v) d = v"

definition set_alarm ::
  "pcf8523 \<Rightarrow> int option arg \<Rightarrow> int option arg \<Rightarrow> int option arg \<Rightarrow> int option arg \<Rightarrow>
   (error + unit) \<times> pcf8523" where
  "set_alarm self min_arg hour_arg day_arg weekday_arg =
     (let min' = arg_or min_arg (Some 1);
          hour = arg_or hour_arg None;
          day = arg_or day_arg None;
          weekday = arg_or weekday_arg None
      in case assert_clock_inputs None min' hour day None None weekday of
           Inl e \<Rightarrow> (Inl e, self)
         | Inr u \<Rightarrow>
             (let alarm_minute = (case min' of None \<Rightarrow> ALARM_IGNORE
                                  | Some v \<Rightarrow> int_to_bcd v AND IGNORE_LAST_BIT);
                  alarm_hour = (case hour of None \<Rightarrow> ALARM_IGNORE
                                | Some v \<Rightarrow> int_to_bcd v AND IGNORE_LAST_BIT);
                  alarm_day = (case day of None \<Rightarrow> ALARM_IGNORE
                               | Some v \<Rightarrow> int_to_bcd v AND IGNORE_LAST_BIT);
                  alarm_weekday = (case weekday of None \<Rightarrow> ALARM_IGNORE
                                   | Some v \<Rightarrow> int_to_bcd v AND IGNORE_LAST_BIT);
                  self = write_reg self Reg_ALARM_MINUTES alarm_minute;
                  self = write_reg self Reg_ALARM_HOURS alarm_hour;
                  self = write_reg self Reg_ALARM_DAY alarm_day;
                  self = write_reg self Reg_ALARM_WEEKDAY alarm_weekday
              in (Inr (), enable_alarm_interrupt self)))"

definition set_clk_out_frequency :: "pcf8523 \<Rightarrow> int arg \<Rightarrow> pcf8523" where
  "set_clk_out_frequency self frequency_arg =
     write_reg self Reg_CLK_OUT (arg_or frequency_arg CLOCK_CLK_OUT_FREQ_1_HZ)"

text \<open>The \<^verbatim>\<open>for\<close> loop of \<^verbatim>\<open>clear_alarm\<close> over the four alarm registers is a left fold.\<close>

definition clear_alarm :: "pcf8523 \<Rightarrow> pcf8523" where
  "clear_alarm self =
     foldl (\<lambda>self reg. write_reg self reg ALARM_IGNORE)
       (write_reg self Reg_CONTROL_2 0x00)
       [Reg_ALARM_MINUTES, Reg_ALARM_HOURS, Reg_ALARM_DAY, Reg_ALARM_WEEKDAY]"

text \<open>A device with every register zero and no transfer issued yet, for concrete runs.\<close>

definition blank :: pcf8523 where
  "blank = \<lparr>regs = (\<lambda>r. 0), trace = []\<rparr>"

section \<open>Documented domains\<close>

text \<open>
  The vocabulary of the specification, kept apart from the code above: the documented
  domain of an optional field, the seven domains of a clock request, the bus write that
  corresponds to a supplied field, and a well-formed two-digit BCD byte (both nibbles
  decimal digits).
\<close>

fun in_range :: "int \<Rightarrow> int \<Rightarrow> int option \<Rightarrow> bool" where
  "in_range lo hi None = True"
| "in_range lo hi (Some v) = (lo \<le> v \<and> v \<le> hi)"

definition fields_in_domain ::
  "int option \<Rightarrow> int option \<Rightarrow> int option \<Rightarrow> int option \<Rightarrow> int option \<Rightarrow> int option \<Rightarrow>
   int option \<Rightarrow> bool" where
  "fields_in_domain seconds minutes hours days month year weekday =
     (in_range 0 59 seconds \<and> in_range 0 59 minutes \<and> in_range 0 23 hours \<and>
      in_range 1 31 days \<and> in_range 1 12 month \<and> in_range 0 99 year \<and>
      in_range 1 7 weekday)"

fun field_write :: "int \<Rightarrow> int option \<Rightarrow> bus_op list" where
  "field_write reg None = []"
| "field_write reg (Some v) = [Write reg (int_to_bcd v)]"

definition is_bcd_byte :: "int \<Rightarrow> bool" where
  "is_bcd_byte b = (0 \<le> b \<and> b \<le> 0xFF \<and> b div 16 \<le> 9 \<and> b mod 16 \<le> 9)"

section \<open>Unfolding rules\<close>

lemmas Reg_defs =
  Reg_CONTROL_1_def Reg_CONTROL_2_def Reg_CONTROL_3_def Reg_SECONDS_def Reg_MINUTES_def
  Reg_HOURS_def Reg_DAYS_def Reg_WEEKDAY_def Reg_MONTH_def Reg_YEAR_def
  Reg_ALARM_MINUTES_def Reg_ALARM_HOURS_def Reg_ALARM_DAY_def Reg_ALARM_WEEKDAY_def
  Reg_RESERVED_def Reg_CLK_OUT_def Reg_TIMER_def

lemmas magic_defs =
  ALARM_IGNORE_def RTC_RESET_def IGNORE_LAST_BIT_def
  CLOCK_CLK_OUT_FREQ_32_DOT_768KHZ_def CLOCK_CLK_OUT_FREQ_1_DOT_024KHZ_def
  CLOCK_CLK_OUT_FREQ_32_KHZ_def CLOCK_CLK_OUT_FREQ_1_HZ_def CLOCK_CLK_HIGH_IMPEDANCE_def

lemmas driver_defs =
  write_reg_def read_def read_seconds_def read_minutes_def read_hours_def read_day_def
  read_date_def read_month_def read_year_def

lemmas str_defs = str_int_def str_nat.simps digit_char_def

declare str_nat.simps [simp del]

section \<open>Bytes, masks and the codec\<close>

lemma int_to_bcd_digits:
  "int_to_bcd n div 16 = n div 10" "int_to_bcd n mod 16 = n mod 10"
proof -
  have nib: "0 \<le> n mod 10" "n mod 10 < 16"
    by simp_all
  show "int_to_bcd n div 16 = n div 10"
    unfolding int_to_bcd_def using nib by (simp add: div_pos_pos_trivial)
  show "int_to_bcd n mod 16 = n mod 10"
    unfolding int_to_bcd_def using nib by (simp add: mod_pos_pos_trivial)
qed

lemma bcd_round_trip_all: "bcd_to_int (int_to_bcd n) = n"
  unfolding bcd_to_int_def int_to_bcd_digits by simp

lemma int_to_bcd_decimal:
  obtains q r where "n = 10 * q + r" and "0 \<le> r" and "r \<le> 9"
    and "int_to_bcd n = 16 * q + r" and "n div 10 = q" and "n mod 10 = r"
proof
  show "n = 10 * (n div 10) + n mod 10"
    by simp
  show "0 \<le> n mod 10"
    by simp
  show "n mod 10 \<le> 9"
    using pos_mod_bound [of 10 n] by linarith
  show "int_to_bcd n = 16 * (n div 10) + n mod 10"
    by (simp add: int_to_bcd_def)
qed simp_all

lemma is_bcd_byte_int_to_bcd: "is_bcd_byte (int_to_bcd n) = (0 \<le> n \<and> n \<le> 99)"
proof -
  obtain q r where d: "n = 10 * q + r" "0 \<le> r" "r \<le> 9" "int_to_bcd n = 16 * q + r"
      "n div 10 = q" "n mod 10 = r"
    by (rule int_to_bcd_decimal)
  have dv: "int_to_bcd n div 16 = q" "int_to_bcd n mod 16 = r"
    using int_to_bcd_digits [of n] d(5,6) by simp_all
  have "is_bcd_byte (int_to_bcd n) =
      (0 \<le> 16 * q + r \<and> 16 * q + r \<le> 255 \<and> q \<le> 9 \<and> r \<le> 9)"
    unfolding is_bcd_byte_def dv unfolding d(4) by simp
  also have "\<dots> = (0 \<le> n \<and> n \<le> 99)"
    using d(1-3) by presburger
  finally show ?thesis .
qed

lemma int_to_bcd_out_of_range:
  "n < 0 \<Longrightarrow> int_to_bcd n < 0" "99 < n \<Longrightarrow> 0xA0 \<le> int_to_bcd n"
proof -
  obtain q r where d: "n = 10 * q + r" "0 \<le> r" "r \<le> 9" "int_to_bcd n = 16 * q + r"
    by (rule int_to_bcd_decimal)
  show "int_to_bcd n < 0" if "n < 0"
  proof -
    from that d(1,2) have "q < 0"
      by linarith
    then have "q \<le> - 1"
      by simp
    with d(3) show ?thesis
      unfolding d(4) by linarith
  qed
  show "0xA0 \<le> int_to_bcd n" if "99 < n"
  proof -
    from that d(1,3) have "9 < q"
      by linarith
    then have "10 \<le> q"
      by simp
    with d(2) show ?thesis
      unfolding d(4) by linarith
  qed
qed

lemma uint_u8_of_byte: "0 \<le> x \<Longrightarrow> x \<le> 255 \<Longrightarrow> uint (word_of_int x :: 8 word) = x"
  by (simp add: uint_word_of_int take_bit_eq_mod)

lemma uint_u8_bounds: "0 \<le> uint (b :: 8 word)" "uint (b :: 8 word) \<le> 255"
  using uint_lt2p [of b] by simp_all

lemma u8_or_2: "(word_of_int (uint (b :: 8 word) OR 2) :: 8 word) = b OR 2"
  by (simp add: word_or_def)

lemma and_low_bits:
  fixes x :: int
  assumes "0 \<le> x"
  shows "x < 128 \<Longrightarrow> x AND 0x7F = x" "x < 64 \<Longrightarrow> x AND 0x3F = x"
    "x < 32 \<Longrightarrow> x AND 0x1F = x" "x < 8 \<Longrightarrow> x AND 0x07 = x"
  using assms take_bit_int_eq_self [of x 7] take_bit_int_eq_self [of x 6]
    take_bit_int_eq_self [of x 5] take_bit_int_eq_self [of x 3]
  by (simp_all add: take_bit_eq_mask mask_eq_exp_minus_1)

lemma bcd_to_int_bounds:
  fixes y :: int
  assumes "0 \<le> y"
  shows "0 \<le> bcd_to_int y"
    and "y \<le> 0x7F \<Longrightarrow> bcd_to_int y \<le> 85"
    and "y \<le> 0x3F \<Longrightarrow> bcd_to_int y \<le> 45"
    and "y \<le> 0x1F \<Longrightarrow> bcd_to_int y \<le> 25"
    and "y \<le> 0x07 \<Longrightarrow> bcd_to_int y \<le> 7"
    and "y \<le> 0xFF \<Longrightarrow> bcd_to_int y \<le> 165"
  using assms unfolding bcd_to_int_def by presburger+

lemma int_to_bcd_bounds:
  assumes "0 \<le> n"
  shows "0 \<le> int_to_bcd n"
    and "n \<le> 59 \<Longrightarrow> int_to_bcd n < 128"
    and "n \<le> 31 \<Longrightarrow> int_to_bcd n < 64"
    and "n \<le> 12 \<Longrightarrow> int_to_bcd n < 32"
    and "n \<le> 7 \<Longrightarrow> int_to_bcd n < 8"
    and "n \<le> 99 \<Longrightarrow> int_to_bcd n \<le> 255"
  using assms unfolding int_to_bcd_def by presburger+

lemma decode_stored:
  assumes "0 \<le> n"
  shows "n \<le> 59 \<Longrightarrow> bcd_to_int (uint (word_of_int (int_to_bcd n) :: 8 word) AND 0x7F) = n"
    and "n \<le> 31 \<Longrightarrow> bcd_to_int (uint (word_of_int (int_to_bcd n) :: 8 word) AND 0x3F) = n"
    and "n \<le> 12 \<Longrightarrow> bcd_to_int (uint (word_of_int (int_to_bcd n) :: 8 word) AND 0x1F) = n"
    and "n \<le> 7 \<Longrightarrow> bcd_to_int (uint (word_of_int (int_to_bcd n) :: 8 word) AND 0x07) = n"
    and "n \<le> 99 \<Longrightarrow> bcd_to_int (uint (word_of_int (int_to_bcd n) :: 8 word)) = n"
  using int_to_bcd_bounds [OF assms]
  by (simp_all add: uint_u8_of_byte and_low_bits bcd_round_trip_all)

lemma alarm_byte_not_sentinel: "(word_of_int (x AND 0x7F) :: 8 word) \<noteq> 0x80"
proof
  assume eq: "(word_of_int (x AND 0x7F) :: 8 word) = 0x80"
  have b: "0 \<le> x AND 0x7F" "x AND 0x7F \<le> 0x7F"
    by simp_all
  then have "uint (word_of_int (x AND 0x7F) :: 8 word) = x AND 0x7F"
    by (intro uint_u8_of_byte) simp_all
  with eq have "x AND 0x7F = 128"
    by simp
  with b show False
    by simp
qed

section \<open>Range assertions\<close>

lemma assert_field_Inr: "assert_field name lo hi v = Inr u \<longleftrightarrow> in_range lo hi v"
  by (cases v) simp_all

lemma assert_field_Inl:
  "assert_field name lo hi v = Inl e \<longleftrightarrow>
     (\<exists>x. v = Some x \<and> \<not> (lo \<le> x \<and> x \<le> hi) \<and>
          e = AssertionError (''invalid '' @ name @ '' '' @ str_int x))"
  by (cases v) auto

lemma first_error_Inr: "first_error rs = Inr u \<longleftrightarrow> (\<forall>r \<in> set rs. r = Inr ())"
  by (induction rs rule: first_error.induct) auto

lemma first_error_Inl: "first_error rs = Inl e \<Longrightarrow> Inl e \<in> set rs"
  by (induction rs rule: first_error.induct) auto

lemma assert_clock_inputs_Inr:
  "assert_clock_inputs seconds minutes hours days month year weekday = Inr u \<longleftrightarrow>
     fields_in_domain seconds minutes hours days month year weekday"
  by (simp add: assert_clock_inputs_def first_error_Inr fields_in_domain_def
      assert_field_Inr)

lemma assert_clock_inputs_Inl:
  assumes "assert_clock_inputs seconds minutes hours days month year weekday = Inl e"
  shows "\<exists>name lo hi v.
           (name, lo, hi, Some v) \<in> set [(''seconds'', 0, 59, seconds),
              (''minutes'', 0, 59, minutes), (''hours'', 0, 23, hours),
              (''days'', 1, 31, days), (''month'', 1, 12, month),
              (''year'', 0, 99, year), (''weekday'', 1, 7, weekday)] \<and>
           \<not> (lo \<le> v \<and> v \<le> hi) \<and>
           e = AssertionError (''invalid '' @ name @ '' '' @ str_int v)"
proof -
  let ?tbl = "[(''seconds'', 0, 59, seconds), (''minutes'', 0, 59, minutes),
              (''hours'', 0, 23, hours), (''days'', 1, 31, days), (''month'', 1, 12, month),
              (''year'', 0, 99, year), (''weekday'', 1, 7, weekday)]"
  have "assert_clock_inputs seconds minutes hours days month year weekday =
          first_error (map (\<lambda>(name, lo, hi, v). assert_field name lo hi v) ?tbl)"
    by (simp add: assert_clock_inputs_def)
  with assms have "Inl e \<in> set (map (\<lambda>(name, lo, hi, v). assert_field name lo hi v) ?tbl)"
    using first_error_Inl by metis
  then obtain name lo hi v where mem: "(name, lo, hi, v) \<in> set ?tbl"
      and bad: "assert_field name lo hi v = Inl e"
    unfolding set_map by force
  from bad obtain x where "v = Some x" "\<not> (lo \<le> x \<and> x \<le> hi)"
      "e = AssertionError (''invalid '' @ name @ '' '' @ str_int x)"
    unfolding assert_field_Inl by blast
  with mem show ?thesis
    by blast
qed

section \<open>Driver steps\<close>

lemma regs_write_reg:
  "regs (write_reg self register data) = (regs self)(register := word_of_int data)"
  by (simp add: write_reg_def)

lemma trace_field_write:
  "trace (case v of None \<Rightarrow> self | Some x \<Rightarrow> write_reg self reg (int_to_bcd x)) =
     trace self @ field_write reg v"
  by (cases v) (simp_all add: write_reg_def)

lemma write_all_rejected:
  assumes "assert_clock_inputs seconds minutes hours date month year iso_week_day = Inl e"
  shows "write_all self seconds minutes hours date month year iso_week_day = (Inl e, self)"
  using assms by (simp add: write_all_def)

lemma write_all_accepted:
  assumes "assert_clock_inputs seconds minutes hours date month year iso_week_day = Inr u"
  shows "fst (write_all self seconds minutes hours date month year iso_week_day) = Inr ()"
    and "trace (snd (write_all self seconds minutes hours date month year iso_week_day)) =
       trace self @ field_write Reg_SECONDS seconds @ field_write Reg_MINUTES minutes @
         field_write Reg_HOURS hours @ field_write Reg_DAYS date @
         field_write Reg_MONTH month @ field_write Reg_YEAR year @
         field_write Reg_WEEKDAY iso_week_day"
  using assms by (simp_all add: write_all_def Let_def trace_field_write)

lemma read_values:
  "fst (read_seconds self) = bcd_to_int (uint (regs self Reg_SECONDS) AND 0x7F)"
  "fst (read_minutes self) = bcd_to_int (uint (regs self Reg_MINUTES) AND 0x7F)"
  "fst (read_hours self) = bcd_to_int (uint (regs self Reg_HOURS) AND 0x3F)"
  "fst (read_date self) = bcd_to_int (uint (regs self Reg_DAYS) AND 0x3F)"
  "fst (read_day self) = bcd_to_int (uint (regs self Reg_WEEKDAY) AND 0x07)"
  "fst (read_month self) = bcd_to_int (uint (regs self Reg_MONTH) AND 0x1F)"
  "fst (read_year self) = bcd_to_int (uint (regs self Reg_YEAR))"
  by (simp_all add: driver_defs magic_defs)

lemma enable_alarm_interrupt_regs:
  "regs (enable_alarm_interrupt self) =
     (regs self)(Reg_CONTROL_1 := regs self Reg_CONTROL_1 OR 0x02)"
  by (simp add: enable_alarm_interrupt_def driver_defs u8_or_2)

lemma enable_alarm_interrupt_trace:
  "trace (enable_alarm_interrupt self) =
     trace self @
     [Read Reg_CONTROL_1, Write Reg_CONTROL_1 (uint (regs self Reg_CONTROL_1) OR 0x02)]"
  by (simp add: enable_alarm_interrupt_def driver_defs)

lemma set_alarm_accepted:
  assumes "fst (set_alarm self min_arg hour_arg day_arg weekday_arg) = Inr ()"
  shows "assert_clock_inputs None (arg_or min_arg (Some 1)) (arg_or hour_arg None)
           (arg_or day_arg None) None None (arg_or weekday_arg None) = Inr ()"
  using assms by (simp add: set_alarm_def Let_def split: sum.splits)

lemma set_alarm_minute_reg:
  assumes "fst (set_alarm self min_arg hour_arg day_arg weekday_arg) = Inr ()"
  shows "regs (snd (set_alarm self min_arg hour_arg day_arg weekday_arg)) Reg_ALARM_MINUTES =
     word_of_int (case arg_or min_arg (Some 1) of None \<Rightarrow> ALARM_IGNORE
      | Some v \<Rightarrow> int_to_bcd v AND IGNORE_LAST_BIT)"
  by (simp add: set_alarm_def Let_def set_alarm_accepted [OF assms]
      enable_alarm_interrupt_regs regs_write_reg Reg_defs)

lemma set_alarm_sentinel_iff:
  assumes "fst (set_alarm self min_arg hour_arg day_arg weekday_arg) = Inr ()"
  shows "regs (snd (set_alarm self min_arg hour_arg day_arg weekday_arg)) Reg_ALARM_MINUTES
           = 0x80 \<longleftrightarrow> min_arg = Given None"
proof -
  have "(word_of_int (case arg_or min_arg (Some 1) of None \<Rightarrow> ALARM_IGNORE
           | Some v \<Rightarrow> int_to_bcd v AND IGNORE_LAST_BIT) :: 8 word) = 0x80
        \<longleftrightarrow> min_arg = Given None"
  proof (cases min_arg)
    case Omitted
    then show ?thesis
      using alarm_byte_not_sentinel [of "int_to_bcd 1"] by (simp add: magic_defs)
  next
    case (Given v)
    then show ?thesis
      using alarm_byte_not_sentinel by (cases v) (simp_all add: magic_defs)
  qed
  then show ?thesis
    by (simp only: set_alarm_minute_reg [OF assms])
qed

lemma read_all_values:
  "fst (read_all self) =
     (bcd_to_int (uint (regs self Reg_YEAR)),
      bcd_to_int (uint (regs self Reg_MONTH) AND 0x1F),
      bcd_to_int (uint (regs self Reg_DAYS) AND 0x3F),
      bcd_to_int (uint (regs self Reg_WEEKDAY) AND 0x07),
      bcd_to_int (uint (regs self Reg_HOURS) AND 0x3F),
      bcd_to_int (uint (regs self Reg_MINUTES) AND 0x7F),
      bcd_to_int (uint (regs self Reg_SECONDS) AND 0x7F))"
  by (simp add: read_all_def driver_defs magic_defs)

lemma read_all_device:
  "snd (read_all self) =
     self\<lparr>trace := trace self @
       [Read Reg_YEAR, Read Reg_MONTH, Read Reg_DAYS, Read Reg_WEEKDAY, Read Reg_HOURS,
        Read Reg_MINUTES, Read Reg_SECONDS]\<rparr>"
  by (simp add: read_all_def driver_defs)

lemma write_all_full_regs:
  assumes "assert_clock_inputs (Some s) (Some m) (Some h) (Some d) (Some mo) (Some y) (Some w)
     = Inr ()"
  shows "regs (snd (write_all self (Some s) (Some m) (Some h) (Some d) (Some mo) (Some y)
            (Some w))) =
         (regs self)(Reg_SECONDS := word_of_int (int_to_bcd s),
           Reg_MINUTES := word_of_int (int_to_bcd m), Reg_HOURS := word_of_int (int_to_bcd h),
           Reg_DAYS := word_of_int (int_to_bcd d), Reg_MONTH := word_of_int (int_to_bcd mo),
           Reg_YEAR := word_of_int (int_to_bcd y), Reg_WEEKDAY := word_of_int (int_to_bcd w))"
  using assms by (simp add: write_all_def regs_write_reg)

lemma write_all_read_all_any:
  assumes "0 \<le> s \<and> s \<le> 59" and "0 \<le> m \<and> m \<le> 59" and "0 \<le> h \<and> h \<le> 23"
    and "1 \<le> d \<and> d \<le> 31" and "1 \<le> mo \<and> mo \<le> 12" and "0 \<le> y \<and> y \<le> 99"
    and "1 \<le> w \<and> w \<le> 7"
  shows "fst (write_all self (Some s) (Some m) (Some h) (Some d) (Some mo) (Some y) (Some w))
           = Inr ()"
    and "fst (read_all (snd (write_all self (Some s) (Some m) (Some h) (Some d) (Some mo)
           (Some y) (Some w)))) = (y, mo, d, w, h, m, s)"
proof -
  have ok: "assert_clock_inputs (Some s) (Some m) (Some h) (Some d) (Some mo) (Some y) (Some w)
      = Inr ()"
    using assms by (simp add: assert_clock_inputs_Inr fields_in_domain_def)
  show "fst (write_all self (Some s) (Some m) (Some h) (Some d) (Some mo) (Some y) (Some w))
           = Inr ()"
    by (rule write_all_accepted(1) [OF ok])
  show "fst (read_all (snd (write_all self (Some s) (Some m) (Some h) (Some d) (Some mo)
           (Some y) (Some w)))) = (y, mo, d, w, h, m, s)"
    unfolding read_all_values write_all_full_regs [OF ok]
    using assms by (simp add: Reg_defs decode_stored)
qed

lemma set_alarm_rejected:
  assumes "assert_clock_inputs None (arg_or min_arg (Some 1)) (arg_or hour_arg None)
           (arg_or day_arg None) None None (arg_or weekday_arg None) = Inl e"
  shows "set_alarm self min_arg hour_arg day_arg weekday_arg = (Inl e, self)"
  using assms by (simp add: set_alarm_def Let_def)

lemma assert_clock_inputs_rejects:
  assumes "\<not> fields_in_domain seconds minutes hours days month year weekday"
  obtains e where "assert_clock_inputs seconds minutes hours days month year weekday = Inl e"
proof -
  from assms have "assert_clock_inputs seconds minutes hours days month year weekday \<noteq> Inr ()"
    by (simp add: assert_clock_inputs_Inr)
  then show ?thesis
    using that by (cases "assert_clock_inputs seconds minutes hours days month year weekday") auto
qed

lemma field_write_bcd:
  assumes "in_range lo hi v" and "0 \<le> lo" and "hi \<le> 99"
  shows "\<forall>op \<in> set (field_write reg v). \<exists>r b. op = Write r b \<and> is_bcd_byte b"
  using assms by (cases v) (simp_all add: is_bcd_byte_int_to_bcd)

lemma write_all_writes_bcd:
  assumes "fields_in_domain seconds minutes hours date month year iso_week_day"
  shows "\<forall>op \<in> set (drop (length (trace self))
            (trace (snd (write_all self seconds minutes hours date month year iso_week_day)))).
          \<exists>r b. op = Write r b \<and> is_bcd_byte b"
proof -
  have a: "assert_clock_inputs seconds minutes hours date month year iso_week_day = Inr ()"
    using assms by (simp add: assert_clock_inputs_Inr)
  note d = assms [unfolded fields_in_domain_def]
  have f1: "\<forall>op \<in> set (field_write Reg_SECONDS seconds). \<exists>r b. op = Write r b \<and> is_bcd_byte b"
    by (rule field_write_bcd [of 0 59]) (use d in simp_all)
  have f2: "\<forall>op \<in> set (field_write Reg_MINUTES minutes). \<exists>r b. op = Write r b \<and> is_bcd_byte b"
    by (rule field_write_bcd [of 0 59]) (use d in simp_all)
  have f3: "\<forall>op \<in> set (field_write Reg_HOURS hours). \<exists>r b. op = Write r b \<and> is_bcd_byte b"
    by (rule field_write_bcd [of 0 23]) (use d in simp_all)
  have f4: "\<forall>op \<in> set (field_write Reg_DAYS date). \<exists>r b. op = Write r b \<and> is_bcd_byte b"
    by (rule field_write_bcd [of 1 31]) (use d in simp_all)
  have f5: "\<forall>op \<in> set (field_write Reg_MONTH month). \<exists>r b. op = Write r b \<and> is_bcd_byte b"
    by (rule field_write_bcd [of 1 12]) (use d in simp_all)
  have f6: "\<forall>op \<in> set (field_write Reg_YEAR year). \<exists>r b. op = Write r b \<and> is_bcd_byte b"
    by (rule field_write_bcd [of 0 99]) (use d in simp_all)
  have f7: "\<forall>op \<in> set (field_write Reg_WEEKDAY iso_week_day). \<exists>r b. op = Write r b \<and> is_bcd_byte b"
    by (rule field_write_bcd [of 1 7]) (use d in simp_all)
  have "\<forall>op \<in> set (field_write Reg_SECONDS seconds @ field_write Reg_MINUTES minutes @
         field_write Reg_HOURS hours @ field_write Reg_DAYS date @
         field_write Reg_MONTH month @ field_write Reg_YEAR year @
         field_write Reg_WEEKDAY iso_week_day). \<exists>r b. op = Write r b \<and> is_bcd_byte b"
    unfolding set_append ball_Un using f1 f2 f3 f4 f5 f6 f7 by (intro conjI)
  moreover have "drop (length (trace self))
        (trace (snd (write_all self seconds minutes hours date month year iso_week_day))) =
      field_write Reg_SECONDS seconds @ field_write Reg_MINUTES minutes @
         field_write Reg_HOURS hours @ field_write Reg_DAYS date @
         field_write Reg_MONTH month @ field_write Reg_YEAR year @
         field_write Reg_WEEKDAY iso_week_day"
    unfolding write_all_accepted(2) [OF a] by simp
  ultimately show ?thesis
    by (simp only:)
qed

section \<open>The claims\<close>

text \<open>
  C1. Writing seconds=45, minutes=30, hours=13, day of month=15, month=6, year=23 and
  weekday=4 with \<open>write_all\<close> succeeds on any device, issues the seven BCD bytes in the
  order seconds, minutes, hours, day, month, year, weekday, and \<open>read_all\<close> on the
  resulting registers returns the same seven values, as (year, month, date, weekday,
  hours, minutes, seconds). This is no accident of the one tuple. On every device
  \<open>read_all\<close> issues seven reads, of the year, month, day, weekday, hours, minutes and
  seconds registers in that order, changes no register, and returns for each field the
  BCD decoding of the register's byte under the field's mask (none for year, 0x1F
  month, 0x3F day and hours, 0x07 weekday, 0x7F minutes and seconds). And for every tuple
  of in-domain values, \<open>write_all\<close> followed by \<open>read_all\<close> returns the values written.
\<close>

theorem write_all_read_all_round_trip:
  "fst (write_all self (Some 45) (Some 30) (Some 13) (Some 15) (Some 6) (Some 23) (Some 4))
     = Inr ()
   \<and> trace (snd (write_all self (Some 45) (Some 30) (Some 13) (Some 15) (Some 6) (Some 23)
        (Some 4)))
       = trace self @
         [Write Reg_SECONDS 0x45, Write Reg_MINUTES 0x30, Write Reg_HOURS 0x13,
          Write Reg_DAYS 0x15, Write Reg_MONTH 0x06, Write Reg_YEAR 0x23,
          Write Reg_WEEKDAY 0x04]
   \<and> fst (read_all (snd (write_all self (Some 45) (Some 30) (Some 13) (Some 15) (Some 6)
        (Some 23) (Some 4))))
       = (23, 6, 15, 4, 13, 30, 45)
   \<and> int_to_bcd 45 AND 0x7F = int_to_bcd 45 \<and> int_to_bcd 30 AND 0x7F = int_to_bcd 30
   \<and> int_to_bcd 13 AND 0x3F = int_to_bcd 13 \<and> int_to_bcd 15 AND 0x3F = int_to_bcd 15
   \<and> int_to_bcd 6 AND 0x1F = int_to_bcd 6 \<and> int_to_bcd 4 AND 0x07 = int_to_bcd 4
   \<and> fst (read_all self) =
       (bcd_to_int (uint (regs self Reg_YEAR)),
        bcd_to_int (uint (regs self Reg_MONTH) AND 0x1F),
        bcd_to_int (uint (regs self Reg_DAYS) AND 0x3F),
        bcd_to_int (uint (regs self Reg_WEEKDAY) AND 0x07),
        bcd_to_int (uint (regs self Reg_HOURS) AND 0x3F),
        bcd_to_int (uint (regs self Reg_MINUTES) AND 0x7F),
        bcd_to_int (uint (regs self Reg_SECONDS) AND 0x7F))
   \<and> snd (read_all self) =
       self\<lparr>trace := trace self @
         [Read Reg_YEAR, Read Reg_MONTH, Read Reg_DAYS, Read Reg_WEEKDAY, Read Reg_HOURS,
          Read Reg_MINUTES, Read Reg_SECONDS]\<rparr>
   \<and> ((0 \<le> s \<and> s \<le> 59) \<and> (0 \<le> m \<and> m \<le> 59) \<and> (0 \<le> h \<and> h \<le> 23) \<and>
       (1 \<le> d \<and> d \<le> 31) \<and> (1 \<le> mo \<and> mo \<le> 12) \<and> (0 \<le> y \<and> y \<le> 99) \<and>
       (1 \<le> w \<and> w \<le> 7) \<longrightarrow>
       fst (write_all self (Some s) (Some m) (Some h) (Some d) (Some mo) (Some y) (Some w))
         = Inr () \<and>
       fst (read_all (snd (write_all self (Some s) (Some m) (Some h) (Some d) (Some mo)
         (Some y) (Some w)))) = (y, mo, d, w, h, m, s))"
proof -
  have concrete:
    "fst (write_all self (Some 45) (Some 30) (Some 13) (Some 15) (Some 6) (Some 23) (Some 4))
       = Inr ()
     \<and> trace (snd (write_all self (Some 45) (Some 30) (Some 13) (Some 15) (Some 6) (Some 23)
          (Some 4)))
         = trace self @
           [Write Reg_SECONDS 0x45, Write Reg_MINUTES 0x30, Write Reg_HOURS 0x13,
            Write Reg_DAYS 0x15, Write Reg_MONTH 0x06, Write Reg_YEAR 0x23,
            Write Reg_WEEKDAY 0x04]
     \<and> fst (read_all (snd (write_all self (Some 45) (Some 30) (Some 13) (Some 15) (Some 6)
          (Some 23) (Some 4))))
         = (23, 6, 15, 4, 13, 30, 45)
     \<and> int_to_bcd 45 AND 0x7F = int_to_bcd 45 \<and> int_to_bcd 30 AND 0x7F = int_to_bcd 30
     \<and> int_to_bcd 13 AND 0x3F = int_to_bcd 13 \<and> int_to_bcd 15 AND 0x3F = int_to_bcd 15
     \<and> int_to_bcd 6 AND 0x1F = int_to_bcd 6 \<and> int_to_bcd 4 AND 0x07 = int_to_bcd 4"
    by (simp add: write_all_def read_all_def assert_clock_inputs_def driver_defs Reg_defs
        magic_defs int_to_bcd_def bcd_to_int_def)
  have general:
    "(0 \<le> s \<and> s \<le> 59) \<and> (0 \<le> m \<and> m \<le> 59) \<and> (0 \<le> h \<and> h \<le> 23) \<and>
     (1 \<le> d \<and> d \<le> 31) \<and> (1 \<le> mo \<and> mo \<le> 12) \<and> (0 \<le> y \<and> y \<le> 99) \<and>
     (1 \<le> w \<and> w \<le> 7) \<longrightarrow>
     fst (write_all self (Some s) (Some m) (Some h) (Some d) (Some mo) (Some y) (Some w))
       = Inr () \<and>
     fst (read_all (snd (write_all self (Some s) (Some m) (Some h) (Some d) (Some mo)
       (Some y) (Some w)))) = (y, mo, d, w, h, m, s)"
    using write_all_read_all_any [of s m h d mo y w self] by blast
  from concrete read_all_values [of self] read_all_device [of self] general
  show ?thesis
    by (intro conjI) blast+
qed

theorem write_all_read_all_round_trip_witness:
  "(0 :: int) \<le> 59 \<and> (59 :: int) \<le> 59 \<and> (0 :: int) \<le> 23 \<and> (23 :: int) \<le> 23
   \<and> (1 :: int) \<le> 31 \<and> (31 :: int) \<le> 31 \<and> (1 :: int) \<le> 12 \<and> (12 :: int) \<le> 12
   \<and> (0 :: int) \<le> 99 \<and> (99 :: int) \<le> 99 \<and> (1 :: int) \<le> 7 \<and> (7 :: int) \<le> 7
   \<and> fst (write_all blank (Some 59) (Some 59) (Some 23) (Some 31) (Some 12) (Some 99) (Some 7))
       = Inr ()
   \<and> fst (read_all (snd (write_all blank (Some 59) (Some 59) (Some 23) (Some 31) (Some 12)
        (Some 99) (Some 7)))) = (99, 12, 31, 7, 23, 59, 59)"
  using write_all_read_all_round_trip [of blank 59 59 23 31 12 99 7]
  by simp

text \<open>
  C2. For every integer \<open>n\<close> with \<open>0 \<le> n \<le> 99\<close>, decoding the BCD encoding gives \<open>n\<close>
  back: \<open>bcd_to_int (int_to_bcd n) = n\<close>.
\<close>

theorem bcd_round_trip:
  assumes "0 \<le> n" and "n \<le> 99"
  shows "bcd_to_int (int_to_bcd n) = n"
  by (rule bcd_round_trip_all)

theorem bcd_round_trip_witness:
  "(0::int) \<le> 59 \<and> (59::int) \<le> 99 \<and> int_to_bcd 59 = 0x59 \<and> bcd_to_int (int_to_bcd 59) = 59"
  using bcd_round_trip [of 59] by (simp add: int_to_bcd_def)

text \<open>
  C3. When at least one supplied field of a \<open>write_all\<close> call lies outside its documented
  domain (seconds 0-59, minutes 0-59, hours 0-23, day 1-31, month 1-12, year 0-99,
  weekday 1-7), the call raises the assertion error whose message names an offending
  field and its value, and the device is exactly as before: no transfer was issued.
  When every supplied field is in its domain, the call succeeds and issues one write per
  supplied field, in the order seconds, minutes, hours, day, month, year, weekday.
  (The source's validation error is Python's \<open>AssertionError\<close>; the fields are named as
  \<open>assert_clock_inputs\<close> names them, \<open>days\<close> for the date and \<open>weekday\<close> for the ISO
  weekday.)
\<close>

theorem write_all_all_or_nothing:
  "(\<not> fields_in_domain seconds minutes hours date month year iso_week_day \<longrightarrow>
      (\<exists>name lo hi v.
         (name, lo, hi, Some v) \<in> set [(''seconds'', 0, 59, seconds),
            (''minutes'', 0, 59, minutes), (''hours'', 0, 23, hours),
            (''days'', 1, 31, date), (''month'', 1, 12, month),
            (''year'', 0, 99, year), (''weekday'', 1, 7, iso_week_day)] \<and>
         \<not> (lo \<le> v \<and> v \<le> hi) \<and>
         write_all self seconds minutes hours date month year iso_week_day =
           (Inl (AssertionError (''invalid '' @ name @ '' '' @ str_int v)), self)))
   \<and> (fields_in_domain seconds minutes hours date month year iso_week_day \<longrightarrow>
        fst (write_all self seconds minutes hours date month year iso_week_day) = Inr () \<and>
        trace (snd (write_all self seconds minutes hours date month year iso_week_day)) =
          trace self @ field_write Reg_SECONDS seconds @ field_write Reg_MINUTES minutes @
            field_write Reg_HOURS hours @ field_write Reg_DAYS date @
            field_write Reg_MONTH month @ field_write Reg_YEAR year @
            field_write Reg_WEEKDAY iso_week_day)"
proof (intro conjI impI)
  assume "\<not> fields_in_domain seconds minutes hours date month year iso_week_day"
  then have "assert_clock_inputs seconds minutes hours date month year iso_week_day \<noteq> Inr ()"
    by (simp add: assert_clock_inputs_Inr)
  then obtain e
    where e: "assert_clock_inputs seconds minutes hours date month year iso_week_day = Inl e"
    by (cases "assert_clock_inputs seconds minutes hours date month year iso_week_day") auto
  from assert_clock_inputs_Inl [OF e] write_all_rejected [OF e, of self]
  show "\<exists>name lo hi v.
         (name, lo, hi, Some v) \<in> set [(''seconds'', 0, 59, seconds),
            (''minutes'', 0, 59, minutes), (''hours'', 0, 23, hours),
            (''days'', 1, 31, date), (''month'', 1, 12, month),
            (''year'', 0, 99, year), (''weekday'', 1, 7, iso_week_day)] \<and>
         \<not> (lo \<le> v \<and> v \<le> hi) \<and>
         write_all self seconds minutes hours date month year iso_week_day =
           (Inl (AssertionError (''invalid '' @ name @ '' '' @ str_int v)), self)"
    by metis
next
  assume "fields_in_domain seconds minutes hours date month year iso_week_day"
  then have a: "assert_clock_inputs seconds minutes hours date month year iso_week_day = Inr ()"
    by (simp add: assert_clock_inputs_Inr)
  show "fst (write_all self seconds minutes hours date month year iso_week_day) = Inr ()"
    by (rule write_all_accepted(1) [OF a])
  show "trace (snd (write_all self seconds minutes hours date month year iso_week_day)) =
          trace self @ field_write Reg_SECONDS seconds @ field_write Reg_MINUTES minutes @
            field_write Reg_HOURS hours @ field_write Reg_DAYS date @
            field_write Reg_MONTH month @ field_write Reg_YEAR year @
            field_write Reg_WEEKDAY iso_week_day"
    by (rule write_all_accepted(2) [OF a])
qed

theorem write_all_all_or_nothing_witness:
  "\<not> fields_in_domain (Some 45) (Some 60) None (Some 15) None None (Some 8)
   \<and> write_all blank (Some 45) (Some 60) None (Some 15) None None (Some 8) =
       (Inl (AssertionError ''invalid minutes 60''), blank)
   \<and> fields_in_domain (Some 59) None (Some 23) None (Some 12) None (Some 7)
   \<and> fst (write_all blank (Some 59) None (Some 23) None (Some 12) None (Some 7)) = Inr ()
   \<and> trace (snd (write_all blank (Some 59) None (Some 23) None (Some 12) None (Some 7))) =
       [Write 0x03 0x59, Write 0x05 0x23, Write 0x08 0x12, Write 0x07 0x07]"
  using write_all_all_or_nothing [of "Some 45" "Some 60" None "Some 15" None None "Some 8" blank]
    write_all_all_or_nothing [of "Some 59" None "Some 23" None "Some 12" None "Some 7" blank]
  by (simp add: fields_in_domain_def write_all_def assert_clock_inputs_def str_defs
      blank_def Reg_defs int_to_bcd_def write_reg_def)

text \<open>
  C4. \<open>set_alarm\<close> with minute 30 and hour, day and weekday left out succeeds on any
  device; it writes \<open>int_to_bcd 30 AND 0x7F = 0x30\<close> to the alarm-minute register and the
  sentinel 0x80 to the alarm-hour, alarm-day and alarm-weekday registers, then reads
  control register 1 and writes it back with bit 1 set. Afterwards exactly the
  alarm-minute register among the four differs from the sentinel.
\<close>

theorem set_alarm_minute_30:
  "fst (set_alarm self (Given (Some 30)) Omitted Omitted Omitted) = Inr ()
   \<and> trace (snd (set_alarm self (Given (Some 30)) Omitted Omitted Omitted)) =
       trace self @
       [Write Reg_ALARM_MINUTES (int_to_bcd 30 AND 0x7F), Write Reg_ALARM_HOURS 0x80,
        Write Reg_ALARM_DAY 0x80, Write Reg_ALARM_WEEKDAY 0x80,
        Read Reg_CONTROL_1, Write Reg_CONTROL_1 (uint (regs self Reg_CONTROL_1) OR 0x02)]
   \<and> int_to_bcd 30 AND 0x7F = 0x30
   \<and> regs (snd (set_alarm self (Given (Some 30)) Omitted Omitted Omitted)) =
       (regs self)(Reg_ALARM_MINUTES := 0x30, Reg_ALARM_HOURS := 0x80,
         Reg_ALARM_DAY := 0x80, Reg_ALARM_WEEKDAY := 0x80,
         Reg_CONTROL_1 := regs self Reg_CONTROL_1 OR 0x02)
   \<and> regs (snd (set_alarm self (Given (Some 30)) Omitted Omitted Omitted)) Reg_ALARM_MINUTES
       \<noteq> 0x80
   \<and> bit (regs (snd (set_alarm self (Given (Some 30)) Omitted Omitted Omitted))
        Reg_CONTROL_1) 1"
  by (simp add: set_alarm_def assert_clock_inputs_def enable_alarm_interrupt_regs
      enable_alarm_interrupt_trace write_reg_def Reg_defs magic_defs int_to_bcd_def
      bit_or_iff bit_2_iff)

text \<open>
  C5. Whatever the four alarm registers and control register 2 held, after \<open>clear_alarm\<close>
  control register 2 is 0x00 and the alarm-minute (0x0A), alarm-hour (0x0B), alarm-day
  (0x0C) and alarm-weekday (0x0D) registers all hold the sentinel 0x80; the call issues
  exactly these five writes.
\<close>

theorem clear_alarm_resets:
  "regs (clear_alarm self) Reg_CONTROL_2 = 0x00
   \<and> regs (clear_alarm self) Reg_ALARM_MINUTES = 0x80
   \<and> regs (clear_alarm self) Reg_ALARM_HOURS = 0x80
   \<and> regs (clear_alarm self) Reg_ALARM_DAY = 0x80
   \<and> regs (clear_alarm self) Reg_ALARM_WEEKDAY = 0x80
   \<and> Reg_CONTROL_2 = 0x01 \<and> Reg_ALARM_MINUTES = 0x0A \<and> Reg_ALARM_HOURS = 0x0B
   \<and> Reg_ALARM_DAY = 0x0C \<and> Reg_ALARM_WEEKDAY = 0x0D
   \<and> trace (clear_alarm self) =
       trace self @
       [Write Reg_CONTROL_2 0x00, Write Reg_ALARM_MINUTES 0x80, Write Reg_ALARM_HOURS 0x80,
        Write Reg_ALARM_DAY 0x80, Write Reg_ALARM_WEEKDAY 0x80]"
  by (simp add: clear_alarm_def driver_defs Reg_defs magic_defs)

text \<open>
  C6. For every byte in control register 1, \<open>enable_alarm_interrupt\<close> leaves the
  register equal to its old value with bit 1 set: bit 1 is set, every other bit is as
  before, and no other register changes. A second call leaves the registers as the
  first call left them.
\<close>

theorem enable_alarm_interrupt_sets_bit_1:
  "regs (enable_alarm_interrupt self) =
     (regs self)(Reg_CONTROL_1 := regs self Reg_CONTROL_1 OR 0x02)
   \<and> bit (regs (enable_alarm_interrupt self) Reg_CONTROL_1) 1
   \<and> (\<forall>n. n \<noteq> 1 \<longrightarrow>
         bit (regs (enable_alarm_interrupt self) Reg_CONTROL_1) n =
         bit (regs self Reg_CONTROL_1) n)
   \<and> regs (enable_alarm_interrupt (enable_alarm_interrupt self)) =
       regs (enable_alarm_interrupt self)"
  by (auto simp add: enable_alarm_interrupt_regs bit_or_iff bit_2_iff)

theorem enable_alarm_interrupt_sets_bit_1_witness:
  "regs (enable_alarm_interrupt (blank\<lparr>regs := (regs blank)(Reg_CONTROL_1 := 0xFD)\<rparr>))
     Reg_CONTROL_1 = 0xFF
   \<and> (7::nat) \<noteq> 1
   \<and> bit (regs (enable_alarm_interrupt (blank\<lparr>regs := (regs blank)(Reg_CONTROL_1 := 0xFD)\<rparr>))
        Reg_CONTROL_1) 7 = bit (0xFD :: 8 word) 7
   \<and> regs (enable_alarm_interrupt (enable_alarm_interrupt
        (blank\<lparr>regs := (regs blank)(Reg_CONTROL_1 := 0xFD)\<rparr>))) Reg_CONTROL_1 = 0xFF"
  using enable_alarm_interrupt_sets_bit_1
    [of "blank\<lparr>regs := (regs blank)(Reg_CONTROL_1 := 0xFD)\<rparr>"]
  by (simp add: blank_def)

text \<open>
  C7, as the code has it. \<open>int_to_bcd\<close> checks nothing and raises nothing: it returns
  \<open>n div 10 * 16 + n mod 10\<close> for every integer. The result is a well-formed two-digit
  BCD byte exactly when \<open>0 \<le> n \<le> 99\<close>; a negative input gives a negative result, an
  input above 99 a result of at least 0xA0 (its high digit is no decimal digit), and
  decoding gives the input back in every case. Out-of-range values are turned away
  before encoding, by \<open>assert_clock_inputs\<close>: when a supplied field is outside its
  domain, \<open>write_all\<close> and \<open>set_alarm\<close> end with the error \<open>assert_clock_inputs\<close> raises
  and leave the device as it was, no write issued; and every byte an accepted
  \<open>write_all\<close> writes is a well-formed BCD byte. The claim as stated, that out-of-range
  inputs of \<open>int_to_bcd\<close> fail with an encoding error, does not hold: \<open>int_to_bcd 100\<close> is
  0xA0 and \<open>int_to_bcd (- 1)\<close> is \<open>- 7\<close>.
\<close>

theorem int_to_bcd_unchecked:
  "int_to_bcd n = n div 10 * 16 + n mod 10
   \<and> is_bcd_byte (int_to_bcd n) = (0 \<le> n \<and> n \<le> 99)
   \<and> (n < 0 \<longrightarrow> int_to_bcd n < 0)
   \<and> (99 < n \<longrightarrow> 0xA0 \<le> int_to_bcd n)
   \<and> bcd_to_int (int_to_bcd n) = n
   \<and> (\<not> fields_in_domain seconds minutes hours date month year iso_week_day \<longrightarrow>
        (\<exists>e. assert_clock_inputs seconds minutes hours date month year iso_week_day = Inl e \<and>
             write_all self seconds minutes hours date month year iso_week_day = (Inl e, self)))
   \<and> (fields_in_domain seconds minutes hours date month year iso_week_day \<longrightarrow>
        fst (write_all self seconds minutes hours date month year iso_week_day) = Inr () \<and>
        (\<forall>op \<in> set (drop (length (trace self))
             (trace (snd (write_all self seconds minutes hours date month year
                iso_week_day)))).
           \<exists>r b. op = Write r b \<and> is_bcd_byte b))
   \<and> (\<not> fields_in_domain None (arg_or min_arg (Some 1)) (arg_or hour_arg None)
          (arg_or day_arg None) None None (arg_or weekday_arg None) \<longrightarrow>
        (\<exists>e. assert_clock_inputs None (arg_or min_arg (Some 1)) (arg_or hour_arg None)
               (arg_or day_arg None) None None (arg_or weekday_arg None) = Inl e \<and>
             set_alarm self min_arg hour_arg day_arg weekday_arg = (Inl e, self)))"
proof (intro conjI impI)
  show "int_to_bcd n = n div 10 * 16 + n mod 10"
    by (simp add: int_to_bcd_def)
  show "is_bcd_byte (int_to_bcd n) = (0 \<le> n \<and> n \<le> 99)"
    by (rule is_bcd_byte_int_to_bcd)
  show "int_to_bcd n < 0" if "n < 0"
    using that by (rule int_to_bcd_out_of_range)
  show "0xA0 \<le> int_to_bcd n" if "99 < n"
    using that by (rule int_to_bcd_out_of_range)
  show "bcd_to_int (int_to_bcd n) = n"
    by (rule bcd_round_trip_all)
  show "\<exists>e. assert_clock_inputs seconds minutes hours date month year iso_week_day = Inl e \<and>
          write_all self seconds minutes hours date month year iso_week_day = (Inl e, self)"
    if "\<not> fields_in_domain seconds minutes hours date month year iso_week_day"
    using assert_clock_inputs_rejects [OF that] write_all_rejected by metis
  show "fst (write_all self seconds minutes hours date month year iso_week_day) = Inr ()"
    if "fields_in_domain seconds minutes hours date month year iso_week_day"
  proof -
    from that
    have "assert_clock_inputs seconds minutes hours date month year iso_week_day = Inr ()"
      by (simp add: assert_clock_inputs_Inr)
    then show ?thesis
      by (rule write_all_accepted(1))
  qed
  show "\<forall>op \<in> set (drop (length (trace self))
             (trace (snd (write_all self seconds minutes hours date month year
                iso_week_day)))).
           \<exists>r b. op = Write r b \<and> is_bcd_byte b"
    if "fields_in_domain seconds minutes hours date month year iso_week_day"
    using that by (rule write_all_writes_bcd)
  show "\<exists>e. assert_clock_inputs None (arg_or min_arg (Some 1)) (arg_or hour_arg None)
               (arg_or day_arg None) None None (arg_or weekday_arg None) = Inl e \<and>
             set_alarm self min_arg hour_arg day_arg weekday_arg = (Inl e, self)"
    if "\<not> fields_in_domain None (arg_or min_arg (Some 1)) (arg_or hour_arg None)
          (arg_or day_arg None) None None (arg_or weekday_arg None)"
    using assert_clock_inputs_rejects [OF that] set_alarm_rejected by metis
qed

theorem int_to_bcd_unchecked_witness:
  "(- 1 :: int) < 0 \<and> int_to_bcd (- 1) < 0 \<and> (99 :: int) < 100 \<and> 0xA0 \<le> int_to_bcd 100
   \<and> \<not> is_bcd_byte (int_to_bcd 100) \<and> \<not> is_bcd_byte (int_to_bcd (- 1))
   \<and> \<not> fields_in_domain (Some 100) None None None None None None
   \<and> write_all blank (Some 100) None None None None None None =
       (Inl (AssertionError ''invalid seconds 100''), blank)
   \<and> \<not> fields_in_domain None (arg_or (Given (Some (- 1))) (Some 1)) (arg_or Omitted None)
         (arg_or Omitted None) None None (arg_or Omitted None)
   \<and> set_alarm blank (Given (Some (- 1))) Omitted Omitted Omitted =
       (Inl (AssertionError ''invalid minutes -1''), blank)
   \<and> fields_in_domain (Some 59) None None None None (Some 99) None
   \<and> fst (write_all blank (Some 59) None None None None (Some 99) None) = Inr ()
   \<and> drop (length (trace blank))
        (trace (snd (write_all blank (Some 59) None None None None (Some 99) None))) =
       [Write Reg_SECONDS 0x59, Write Reg_YEAR 0x99]
   \<and> is_bcd_byte 0x59 \<and> is_bcd_byte 0x99"
  using int_to_bcd_unchecked [of "- 1" "Some 100" None None None None None None blank
      "Given (Some (- 1))" Omitted Omitted Omitted]
    int_to_bcd_unchecked [of 100 "Some 59" None None None None "Some 99" None blank
      Omitted Omitted Omitted Omitted]
  by (simp add: fields_in_domain_def write_all_def set_alarm_def assert_clock_inputs_def
      str_defs blank_def int_to_bcd_def write_reg_def is_bcd_byte_def)

theorem int_to_bcd_counterexample:
  "int_to_bcd 100 = 0xA0 \<and> int_to_bcd (- 1) = - 7"
  by (simp add: int_to_bcd_def)

text \<open>
  C8, as the code has it. \<open>set_clk_out_frequency\<close> checks nothing and raises nothing: for
  every integer it issues exactly one write of that value to the clock-output register
  0x0F (of 0x83, the 1 Hz code, when the argument is left out), and no other register
  changes. For each of the five documented codes 0x80, 0x81, 0x82, 0x83 and 0x00 the
  register then holds that code. The claim as stated, that any other value is refused,
  does not hold: the value 0x05 is written like any other.
\<close>

theorem set_clk_out_frequency_unchecked:
  "trace (set_clk_out_frequency self (Given frequency)) =
     trace self @ [Write Reg_CLK_OUT frequency]
   \<and> regs (set_clk_out_frequency self (Given frequency)) =
       (regs self)(Reg_CLK_OUT := word_of_int frequency)
   \<and> Reg_CLK_OUT = 0x0F
   \<and> set_clk_out_frequency self Omitted = set_clk_out_frequency self (Given 0x83)
   \<and> uint (regs (set_clk_out_frequency self (Given CLOCK_CLK_OUT_FREQ_32_DOT_768KHZ))
        Reg_CLK_OUT) = 0x80
   \<and> uint (regs (set_clk_out_frequency self (Given CLOCK_CLK_OUT_FREQ_1_DOT_024KHZ))
        Reg_CLK_OUT) = 0x81
   \<and> uint (regs (set_clk_out_frequency self (Given CLOCK_CLK_OUT_FREQ_32_KHZ))
        Reg_CLK_OUT) = 0x82
   \<and> uint (regs (set_clk_out_frequency self (Given CLOCK_CLK_OUT_FREQ_1_HZ))
        Reg_CLK_OUT) = 0x83
   \<and> uint (regs (set_clk_out_frequency self (Given CLOCK_CLK_HIGH_IMPEDANCE))
        Reg_CLK_OUT) = 0x00"
  by (simp add: set_clk_out_frequency_def write_reg_def magic_defs Reg_defs)

theorem set_clk_out_frequency_counterexample:
  "trace (set_clk_out_frequency blank (Given 0x05)) = [Write 0x0F 0x05]
   \<and> regs (set_clk_out_frequency blank (Given 0x05)) 0x0F = 0x05
   \<and> (0x05 :: int) \<notin> {0x80, 0x81, 0x82, 0x83, 0x00}"
  by (simp add: set_clk_out_frequency_def write_reg_def blank_def Reg_defs)

text \<open>
  C9, as the code has it. For every byte stored in a time register, the field's read
  accessor returns the BCD decoding of the byte under the field's mask (0x7F seconds
  and minutes, 0x3F hours and day of month, 0x1F month, 0x07 weekday, none for year),
  and checks nothing. So the result is bounded by the mask only: 0 to 85 for seconds
  and minutes, 0 to 45 for hours and day of month, 0 to 25 for month, 0 to 7 for
  weekday and 0 to 165 for year. It is the field's value, hence within the documented
  domain, whenever the bits of the register under the mask are the BCD encoding of a
  value of that domain, whatever the flag bits above the mask; in particular whenever
  the register holds the byte \<open>write_all\<close> stores for such a value. The claim as stated,
  that every byte decodes into the domain, does not hold: the byte 0x7F in the seconds
  register reads as 85.
\<close>

theorem read_accessors_unvalidated:
  "fst (read_seconds self) = bcd_to_int (uint (regs self Reg_SECONDS) AND 0x7F)
   \<and> fst (read_minutes self) = bcd_to_int (uint (regs self Reg_MINUTES) AND 0x7F)
   \<and> fst (read_hours self) = bcd_to_int (uint (regs self Reg_HOURS) AND 0x3F)
   \<and> fst (read_date self) = bcd_to_int (uint (regs self Reg_DAYS) AND 0x3F)
   \<and> fst (read_month self) = bcd_to_int (uint (regs self Reg_MONTH) AND 0x1F)
   \<and> fst (read_year self) = bcd_to_int (uint (regs self Reg_YEAR))
   \<and> fst (read_day self) = bcd_to_int (uint (regs self Reg_WEEKDAY) AND 0x07)
   \<and> (0 \<le> fst (read_seconds self) \<and> fst (read_seconds self) \<le> 85)
   \<and> (0 \<le> fst (read_minutes self) \<and> fst (read_minutes self) \<le> 85)
   \<and> (0 \<le> fst (read_hours self) \<and> fst (read_hours self) \<le> 45)
   \<and> (0 \<le> fst (read_date self) \<and> fst (read_date self) \<le> 45)
   \<and> (0 \<le> fst (read_month self) \<and> fst (read_month self) \<le> 25)
   \<and> (0 \<le> fst (read_year self) \<and> fst (read_year self) \<le> 165)
   \<and> (0 \<le> fst (read_day self) \<and> fst (read_day self) \<le> 7)
   \<and> (0 \<le> s \<and> s \<le> 59 \<and> uint (regs self Reg_SECONDS) AND 0x7F = int_to_bcd s
        \<longrightarrow> fst (read_seconds self) = s)
   \<and> (0 \<le> m \<and> m \<le> 59 \<and> uint (regs self Reg_MINUTES) AND 0x7F = int_to_bcd m
        \<longrightarrow> fst (read_minutes self) = m)
   \<and> (0 \<le> h \<and> h \<le> 23 \<and> uint (regs self Reg_HOURS) AND 0x3F = int_to_bcd h
        \<longrightarrow> fst (read_hours self) = h)
   \<and> (1 \<le> d \<and> d \<le> 31 \<and> uint (regs self Reg_DAYS) AND 0x3F = int_to_bcd d
        \<longrightarrow> fst (read_date self) = d)
   \<and> (1 \<le> mo \<and> mo \<le> 12 \<and> uint (regs self Reg_MONTH) AND 0x1F = int_to_bcd mo
        \<longrightarrow> fst (read_month self) = mo)
   \<and> (0 \<le> y \<and> y \<le> 99 \<and> uint (regs self Reg_YEAR) = int_to_bcd y
        \<longrightarrow> fst (read_year self) = y)
   \<and> (1 \<le> w \<and> w \<le> 7 \<and> uint (regs self Reg_WEEKDAY) AND 0x07 = int_to_bcd w
        \<longrightarrow> fst (read_day self) = w)
   \<and> (0 \<le> s \<and> s \<le> 59 \<and> regs self Reg_SECONDS = word_of_int (int_to_bcd s)
        \<longrightarrow> fst (read_seconds self) = s)
   \<and> (0 \<le> m \<and> m \<le> 59 \<and> regs self Reg_MINUTES = word_of_int (int_to_bcd m)
        \<longrightarrow> fst (read_minutes self) = m)
   \<and> (0 \<le> h \<and> h \<le> 23 \<and> regs self Reg_HOURS = word_of_int (int_to_bcd h)
        \<longrightarrow> fst (read_hours self) = h)
   \<and> (1 \<le> d \<and> d \<le> 31 \<and> regs self Reg_DAYS = word_of_int (int_to_bcd d)
        \<longrightarrow> fst (read_date self) = d)
   \<and> (1 \<le> mo \<and> mo \<le> 12 \<and> regs self Reg_MONTH = word_of_int (int_to_bcd mo)
        \<longrightarrow> fst (read_month self) = mo)
   \<and> (0 \<le> y \<and> y \<le> 99 \<and> regs self Reg_YEAR = word_of_int (int_to_bcd y)
        \<longrightarrow> fst (read_year self) = y)
   \<and> (1 \<le> w \<and> w \<le> 7 \<and> regs self Reg_WEEKDAY = word_of_int (int_to_bcd w)
        \<longrightarrow> fst (read_day self) = w)"
  unfolding read_values
  by (intro conjI impI bcd_to_int_bounds uint_u8_bounds)
    (simp_all add: decode_stored bcd_round_trip_all)

theorem read_accessors_unvalidated_witness:
  "(0 :: int) \<le> 45 \<and> (45 :: int) \<le> 59
   \<and> uint (regs (blank\<lparr>regs := (regs blank)(Reg_SECONDS := 0xC5, Reg_WEEKDAY := 0x04)\<rparr>)
        Reg_SECONDS) AND 0x7F = int_to_bcd 45
   \<and> fst (read_seconds (blank\<lparr>regs := (regs blank)(Reg_SECONDS := 0xC5, Reg_WEEKDAY := 0x04)\<rparr>))
       = 45
   \<and> (1 :: int) \<le> 4 \<and> (4 :: int) \<le> 7
   \<and> regs (blank\<lparr>regs := (regs blank)(Reg_SECONDS := 0xC5, Reg_WEEKDAY := 0x04)\<rparr>) Reg_WEEKDAY
       = word_of_int (int_to_bcd 4)
   \<and> fst (read_day (blank\<lparr>regs := (regs blank)(Reg_SECONDS := 0xC5, Reg_WEEKDAY := 0x04)\<rparr>))
       = 4"
  using read_accessors_unvalidated
    [of "blank\<lparr>regs := (regs blank)(Reg_SECONDS := 0xC5, Reg_WEEKDAY := 0x04)\<rparr>"
      45 0 0 1 1 0 4]
  by (simp add: int_to_bcd_def Reg_defs)

theorem read_seconds_counterexample:
  "fst (read_seconds (blank\<lparr>regs := (regs blank)(Reg_SECONDS := 0x7F)\<rparr>)) = 85
   \<and> \<not> (85 :: int) \<le> 59"
  by (simp add: driver_defs blank_def Reg_defs magic_defs bcd_to_int_def)

text \<open>
  C10. \<open>set_alarm\<close> called with no argument programs a minute match, not an all-ignore
  alarm: the minute parameter defaults to 1, so the alarm-minute register receives
  \<open>int_to_bcd 1 AND 0x7F = 0x01\<close>, the alarm-hour, alarm-day and alarm-weekday registers
  receive the sentinel 0x80, and the alarm interrupt is enabled. Among the calls that
  pass the range assertions, the alarm-minute register ends up holding the sentinel
  exactly when \<open>None\<close> was passed for the minute explicitly.
\<close>

theorem set_alarm_default_minute:
  "fst (set_alarm self Omitted Omitted Omitted Omitted) = Inr ()
   \<and> trace (snd (set_alarm self Omitted Omitted Omitted Omitted)) =
       trace self @
       [Write Reg_ALARM_MINUTES (int_to_bcd 1 AND 0x7F), Write Reg_ALARM_HOURS 0x80,
        Write Reg_ALARM_DAY 0x80, Write Reg_ALARM_WEEKDAY 0x80,
        Read Reg_CONTROL_1, Write Reg_CONTROL_1 (uint (regs self Reg_CONTROL_1) OR 0x02)]
   \<and> int_to_bcd 1 AND 0x7F = 0x01
   \<and> regs (snd (set_alarm self Omitted Omitted Omitted Omitted)) =
       (regs self)(Reg_ALARM_MINUTES := 0x01, Reg_ALARM_HOURS := 0x80,
         Reg_ALARM_DAY := 0x80, Reg_ALARM_WEEKDAY := 0x80,
         Reg_CONTROL_1 := regs self Reg_CONTROL_1 OR 0x02)
   \<and> set_alarm self Omitted Omitted Omitted Omitted =
       set_alarm self (Given (Some 1)) (Given None) (Given None) (Given None)
   \<and> (fst (set_alarm self min_arg hour_arg day_arg weekday_arg) = Inr () \<longrightarrow>
        (regs (snd (set_alarm self min_arg hour_arg day_arg weekday_arg)) Reg_ALARM_MINUTES
           = 0x80) = (min_arg = Given None))"
proof -
  have "fst (set_alarm self min_arg hour_arg day_arg weekday_arg) = Inr () \<longrightarrow>
        (regs (snd (set_alarm self min_arg hour_arg day_arg weekday_arg)) Reg_ALARM_MINUTES
           = 0x80) = (min_arg = Given None)"
    using set_alarm_sentinel_iff by blast
  then show ?thesis
    by (simp add: set_alarm_def assert_clock_inputs_def enable_alarm_interrupt_regs
        enable_alarm_interrupt_trace write_reg_def Reg_defs magic_defs int_to_bcd_def)
qed

theorem set_alarm_default_minute_witness:
  "fst (set_alarm blank (Given None) Omitted Omitted Omitted) = Inr ()
   \<and> regs (snd (set_alarm blank (Given None) Omitted Omitted Omitted)) Reg_ALARM_MINUTES = 0x80
   \<and> fst (set_alarm blank (Given (Some 59)) Omitted Omitted Omitted) = Inr ()
   \<and> regs (snd (set_alarm blank (Given (Some 59)) Omitted Omitted Omitted)) Reg_ALARM_MINUTES
       \<noteq> 0x80"
  using set_alarm_default_minute [of blank "Given None" Omitted Omitted Omitted]
    set_alarm_default_minute [of blank "Given (Some 59)" Omitted Omitted Omitted]
  by (simp add: set_alarm_def assert_clock_inputs_def)

end
